theory Spec2Isabelle
  imports Main
begin

unbundle bit_operations_syntax

section \<open>The hash library used by App.js\<close>

text \<open>
  App.js obtains \<open>sha256\<close> from the package js-sha256 (line 6). The package is an
  external dependency: it computes SHA-256 (FIPS 180-4) over the UTF-8 bytes of a string
  message and renders the digest as 64 lowercase hexadecimal characters. It is used in
  two ways: \<open>sha256(message)\<close> (line 130) and the incremental form
  \<open>sha256.create()\<close>, \<open>hasher.update(message)\<close>, \<open>hasher.hex()\<close> (lines 146-155).

  A 32-bit word is a natural number below \<open>2 ^ 32\<close>; every addition and rotation
  writes its reduction modulo \<open>2 ^ 32\<close> out. A byte is a natural number below 256.
\<close>

type_synonym w32 = nat
type_synonym byte = nat

definition K :: "w32 list" where
  "K = [0x428A2F98, 0x71374491, 0xB5C0FBCF, 0xE9B5DBA5, 0x3956C25B, 0x59F111F1, 0x923F82A4, 0xAB1C5ED5,
        0xD807AA98, 0x12835B01, 0x243185BE, 0x550C7DC3, 0x72BE5D74, 0x80DEB1FE, 0x9BDC06A7, 0xC19BF174,
        0xE49B69C1, 0xEFBE4786, 0x0FC19DC6, 0x240CA1CC, 0x2DE92C6F, 0x4A7484AA, 0x5CB0A9DC, 0x76F988DA,
        0x983E5152, 0xA831C66D, 0xB00327C8, 0xBF597FC7, 0xC6E00BF3, 0xD5A79147, 0x06CA6351, 0x14292967,
        0x27B70A85, 0x2E1B2138, 0x4D2C6DFC, 0x53380D13, 0x650A7354, 0x766A0ABB, 0x81C2C92E, 0x92722C85,
        0xA2BFE8A1, 0xA81A664B, 0xC24B8B70, 0xC76C51A3, 0xD192E819, 0xD6990624, 0xF40E3585, 0x106AA070,
        0x19A4C116, 0x1E376C08, 0x2748774C, 0x34B0BCB5, 0x391C0CB3, 0x4ED8AA4A, 0x5B9CCA4F, 0x682E6FF3,
        0x748F82EE, 0x78A5636F, 0x84C87814, 0x8CC70208, 0x90BEFFFA, 0xA4506CEB, 0xBEF9A3F7, 0xC67178F2]"

definition H0 :: "w32 list" where
  "H0 = [0x6A09E667, 0xBB67AE85, 0x3C6EF372, 0xA54FF53A, 0x510E527F, 0x9B05688C, 0x1F83D9AB, 0x5BE0CD19]"

definition add32 :: "w32 \<Rightarrow> w32 \<Rightarrow> w32" where
  "add32 x y = (x + y) mod 2 ^ 32"

definition rotr :: "nat \<Rightarrow> w32 \<Rightarrow> w32" where
  "rotr n x = (x div 2 ^ n) OR ((x * 2 ^ (32 - n)) mod 2 ^ 32)"

definition shr :: "nat \<Rightarrow> w32 \<Rightarrow> w32" where
  "shr n x = x div 2 ^ n"

definition ssig0 :: "w32 \<Rightarrow> w32" where
  "ssig0 x = rotr 7 x XOR rotr 18 x XOR shr 3 x"

definition ssig1 :: "w32 \<Rightarrow> w32" where
  "ssig1 x = rotr 17 x XOR rotr 19 x XOR shr 10 x"

definition bsig0 :: "w32 \<Rightarrow> w32" where
  "bsig0 x = rotr 2 x XOR rotr 13 x XOR rotr 22 x"

definition bsig1 :: "w32 \<Rightarrow> w32" where
  "bsig1 x = rotr 6 x XOR rotr 11 x XOR rotr 25 x"

definition ch :: "w32 \<Rightarrow> w32 \<Rightarrow> w32 \<Rightarrow> w32" where
  "ch x y z = (x AND y) XOR ((x XOR 0xFFFFFFFF) AND z)"

definition maj :: "w32 \<Rightarrow> w32 \<Rightarrow> w32 \<Rightarrow> w32" where
  "maj x y z = (x AND y) XOR (x AND z) XOR (y AND z)"

text \<open>One round on the working variables \<open>[a, b, c, d, e, f, g, h]\<close>.\<close>

fun temp1 :: "w32 list \<Rightarrow> w32 \<Rightarrow> w32 \<Rightarrow> w32" where
  "temp1 [a, b, c, d, e, f, g, h] k w = add32 (add32 (add32 (add32 h (bsig1 e)) (ch e f g)) k) w"
| "temp1 _ _ _ = 0"

fun temp2 :: "w32 list \<Rightarrow> w32" where
  "temp2 (a # b # c # r) = add32 (bsig0 a) (maj a b c)"
| "temp2 _ = 0"

fun round_step :: "w32 list \<Rightarrow> w32 \<Rightarrow> w32 \<Rightarrow> w32 list" where
  "round_step [a, b, c, d, e, f, g, h] t1 t2 = [add32 t1 t2, a, b, c, add32 d t1, e, f, g]"
| "round_step s _ _ = s"

text \<open>
  The message schedule as a window of sixteen words \<open>W\<^sub>t, ..., W\<^sub>t\<^sub>+\<^sub>1\<^sub>5\<close>: the next
  window drops \<open>W\<^sub>t\<close> and appends
  \<open>W\<^sub>t\<^sub>+\<^sub>1\<^sub>6 = ssig1 W\<^sub>t\<^sub>+\<^sub>1\<^sub>4 + W\<^sub>t\<^sub>+\<^sub>9 + ssig0 W\<^sub>t\<^sub>+\<^sub>1 + W\<^sub>t\<close>.
\<close>

fun next_w :: "w32 list \<Rightarrow> w32 list" where
  "next_w (w0 # w1 # r) =
     w1 # r @ [add32 (add32 (add32 (ssig1 (r ! 12)) (r ! 7)) (ssig0 w1)) w0]"
| "next_w ws = ws"

fun rounds :: "w32 list \<Rightarrow> w32 list \<Rightarrow> w32 list \<Rightarrow> w32 list" where
  "rounds [] ws s = s"
| "rounds (k # ks) ws s = rounds ks (next_w ws) (round_step s (temp1 s k (hd ws)) (temp2 s))"

fun be32 :: "byte list \<Rightarrow> w32 list" where
  "be32 (a # b # c # d # r) = (a * 2 ^ 24 + b * 2 ^ 16 + c * 2 ^ 8 + d) # be32 r"
| "be32 _ = []"

definition compress :: "w32 list \<Rightarrow> byte list \<Rightarrow> w32 list" where
  "compress hs block = map2 add32 hs (rounds K (be32 block) hs)"

function blocks :: "byte list \<Rightarrow> byte list list" where
  "blocks bs = (if bs = [] then [] else take 64 bs # blocks (drop 64 bs))"
  by pat_completeness auto
termination
  by (relation "measure length") auto

declare blocks.simps [simp del]

text \<open>
  Padding: the byte \<open>0x80\<close>, zero bytes up to 56 modulo 64, and the length of the
  message in bits as eight big-endian bytes.
\<close>

definition pad :: "byte list \<Rightarrow> byte list" where
  "pad m = m @ [0x80] @ replicate ((119 - length m mod 64) mod 64) 0 @
     map (\<lambda>i. ((8 * length m) div 2 ^ (8 * (7 - i))) mod 256) [0, 1, 2, 3, 4, 5, 6, 7]"

definition sha256_words :: "byte list \<Rightarrow> w32 list" where
  "sha256_words m = foldl compress H0 (blocks (pad m))"

definition hexdigit :: "nat \<Rightarrow> char" where
  "hexdigit n = ''0123456789abcdef'' ! n"

definition hex32 :: "w32 \<Rightarrow> string" where
  "hex32 w = map (\<lambda>i. hexdigit ((w div 2 ^ (4 * (7 - i))) mod 16)) [0, 1, 2, 3, 4, 5, 6, 7]"

definition sha256_bytes :: "byte list \<Rightarrow> string" where
  "sha256_bytes m = concat (map hex32 (sha256_words m))"

text \<open>
  A JavaScript string is modelled as a \<open>string\<close>: a list of characters with codes 0 to
  255, each standing for the UTF-16 code unit of the same value. The hasher reads a
  string message as UTF-8: one byte for a code below \<open>0x80\<close>, two bytes for the others.
\<close>

definition utf8_char :: "char \<Rightarrow> byte list" where
  "utf8_char c = (if (of_char c :: nat) < 0x80 then [of_char c]
                  else [0xC0 + of_char c div 64, 0x80 + of_char c mod 64])"

definition utf8 :: "string \<Rightarrow> byte list" where
  "utf8 s = concat (map utf8_char s)"

text \<open>
  The incremental hasher: its state is the bytes absorbed so far (the library hashes
  them block by block as they arrive; the digest depends on the bytes only).
\<close>

type_synonym hasher = "byte list"

definition sha256_create :: hasher where
  "sha256_create = []"

definition sha256_update :: "hasher \<Rightarrow> string \<Rightarrow> hasher" where
  "sha256_update hasher message = hasher @ utf8 message"

definition sha256_hex :: "hasher \<Rightarrow> string" where
  "sha256_hex hasher = sha256_bytes hasher"

definition sha256 :: "string \<Rightarrow> string" where
  "sha256 message = sha256_hex (sha256_update sha256_create message)"


section \<open>JavaScript values\<close>

text \<open>
  The values a property of the fetched proof object holds: an integer, a string or an
  array of strings; a property that is absent reads as \<open>undefined\<close>.
\<close>

datatype jsval = JUndefined | JNum int | JStr string | JArr "string list"

type_synonym js_object = "string \<rightharpoonup> jsval"

definition get_prop :: "js_object \<Rightarrow> string \<Rightarrow> jsval" where
  "get_prop obj name = (case obj name of None \<Rightarrow> JUndefined | Some v \<Rightarrow> v)"

text \<open>
  \<open>a < b\<close> on two strings: the first position where the code units differ decides;
  when one string is a prefix of the other, the shorter one is the smaller.
\<close>

fun str_less :: "string \<Rightarrow> string \<Rightarrow> bool" where
  "str_less (x # xs) (y # ys) =
     (if (of_char x :: nat) < of_char y then True
      else if (of_char y :: nat) < of_char x then False
      else str_less xs ys)"
| "str_less [] ys = (ys \<noteq> [])"
| "str_less xs [] = False"

text \<open>
  \<open>a === b\<close>: values of different types are never equal, numbers and strings compare
  by value, and two arrays are equal only when they are the same object, which two
  properties of a parsed JSON object never are.
\<close>

fun strict_eq :: "jsval \<Rightarrow> jsval \<Rightarrow> bool" where
  "strict_eq JUndefined JUndefined = True"
| "strict_eq (JNum a) (JNum b) = (a = b)"
| "strict_eq (JStr a) (JStr b) = (a = b)"
| "strict_eq _ _ = False"

text \<open>
  Template interpolation of an integer Number: its decimal digits, with a minus sign
  when negative (the form JavaScript gives every integer of magnitude below \<open>2 ^ 53\<close>).
\<close>

definition digit_char :: "nat \<Rightarrow> char" where
  "digit_char d = ''0123456789'' ! d"

function nat_to_string :: "nat \<Rightarrow> string" where
  "nat_to_string n = (if n < 10 then [digit_char n] else nat_to_string (n div 10) @ [digit_char (n mod 10)])"
  by pat_completeness auto
termination
  by (relation "measure id") auto

declare nat_to_string.simps [simp del]

definition number_to_string :: "int \<Rightarrow> string" where
  "number_to_string n = (if n < 0 then ''-'' @ nat_to_string (nat (- n)) else nat_to_string (nat n))"


section \<open>The component state and showMessage\<close>

text \<open>
  Of the component's state the verifier reads \<open>merkleProofResult\<close> (\<open>null\<close> is
  \<open>None\<close>) and, through \<open>showMessage\<close>, writes \<open>message\<close> and the style of the
  element with id \<open>message\<close> (absent when that element is not in the document). The
  timer that hides the element five seconds later is not part of the model.
\<close>

record message_div =
  backgroundColor :: string
  color :: string
  display :: string

record app_state =
  merkleProofResult :: "js_object option"
  message :: string
  messageDiv :: "message_div option"

definition showMessage :: "string \<Rightarrow> bool \<Rightarrow> app_state \<Rightarrow> app_state" where
  "showMessage msg isError st =
     st\<lparr>message := msg,
        messageDiv := map_option
          (\<lambda>d. d\<lparr>backgroundColor := (if isError then ''#f8d7da'' else ''#d4edda''),
                 color := (if isError then ''#721c24'' else ''#155724''),
                 display := ''block''\<rparr>)
          (messageDiv st)\<rparr>"


section \<open>calculateTxHash\<close>

record Transaction =
  sender :: string
  recipient :: string
  amount :: int

text \<open>
  Line 130. In the template literal only \<open>${tx.amount}\<close> is a substitution; the escapes
  \<open>\{\<close>, \<open>\.\<close> and \<open>\}\<close> stand for the characters themselves, and a brace with no
  dollar sign before it is literal text.
\<close>

definition calculateTxHash :: "Transaction \<Rightarrow> string" where
  \<open>calculateTxHash tx =
     sha256 (''<span class="math-inline">{tx.sender}</span>{tx.recipient}'' @ number_to_string (amount tx))\<close>


section \<open>verifyMerkleProofClientSide\<close>

datatype js_abort =
    TypeError_not_iterable
  | Non_string_operand

text \<open>
  \<open>for (const siblingHash of merkle_proof)\<close>: an array yields its elements, a string
  its characters; \<open>undefined\<close> and a number are not iterable and the statement throws a
  TypeError.
\<close>

fun for_of :: "jsval \<Rightarrow> js_abort + string list" where
  "for_of (JArr xs) = Inr xs"
| "for_of (JStr s) = Inr (map (\<lambda>c. [c]) s)"
| "for_of JUndefined = Inl TypeError_not_iterable"
| "for_of (JNum n) = Inl TypeError_not_iterable"

text \<open>
  The loop body, lines 146-155. The model follows it for a string \<open>currentHash\<close>.
  Any other value (possible in the first iteration only, when \<open>tx_hash\<close> is not a
  string) reaches \<open>hasher.update\<close> in either branch; js-sha256 throws on \<open>undefined\<close>
  and on a number and reads an array as bytes. The model does not follow the hasher on
  such a message: the run ends in \<open>Non_string_operand\<close>.
\<close>

fun loop_body :: "jsval \<Rightarrow> string \<Rightarrow> js_abort + jsval" where
  "loop_body (JStr currentHash) siblingHash =
     (let hasher = sha256_create in
      Inr (JStr (sha256_hex
        (if str_less currentHash siblingHash
         then sha256_update (sha256_update hasher currentHash) siblingHash
         else sha256_update (sha256_update hasher siblingHash) currentHash))))"
| "loop_body _ siblingHash = Inl Non_string_operand"

fun recompute_root :: "jsval \<Rightarrow> string list \<Rightarrow> js_abort + jsval" where
  "recompute_root currentHash [] = Inr currentHash"
| "recompute_root currentHash (siblingHash # rest) =
     (case loop_body currentHash siblingHash of
        Inl e \<Rightarrow> Inl e
      | Inr h \<Rightarrow> recompute_root h rest)"

definition msg_no_data :: string where
  "msg_no_data = ''No Merkle proof data to verify. Please fetch one first.''"

definition msg_verified :: string where
  "msg_verified = ''Merkle Proof verified successfully! The transaction exists in the block.''"

definition msg_failed :: string where
  "msg_failed = ''Merkle Proof verification FAILED! This transaction might not be in the block, or the proof is invalid.''"

definition verifyMerkleProofClientSide :: "app_state \<Rightarrow> js_abort + app_state" where
  "verifyMerkleProofClientSide st =
     (case merkleProofResult st of
        None \<Rightarrow> Inr (showMessage msg_no_data True st)
      | Some obj \<Rightarrow>
          (let tx_hash = get_prop obj ''tx_hash'';
               merkle_root = get_prop obj ''merkle_root'';
               merkle_proof = get_prop obj ''merkle_proof''
           in case for_of merkle_proof of
                Inl e \<Rightarrow> Inl e
              | Inr siblings \<Rightarrow>
                  (case recompute_root tx_hash siblings of
                     Inl e \<Rightarrow> Inl e
                   | Inr currentHash \<Rightarrow>
                       if strict_eq currentHash merkle_root
                       then Inr (showMessage msg_verified False st)
                       else Inr (showMessage msg_failed True st))))"


section \<open>Running the verifier on a fetched proof\<close>

text \<open>
  The object the backend returns for a transaction digest, under the property names
  that line 140 destructures and lines 251-255 display.
\<close>

definition proof_result :: "string \<Rightarrow> string \<Rightarrow> int \<Rightarrow> string list \<Rightarrow> js_object" where
  "proof_result tx_hash merkle_root block_index merkle_proof =
     [''tx_hash'' \<mapsto> JStr tx_hash, ''merkle_root'' \<mapsto> JStr merkle_root,
      ''block_index'' \<mapsto> JNum block_index, ''merkle_proof'' \<mapsto> JArr merkle_proof]"

text \<open>The state \<open>getMerkleProof\<close> leaves behind when the fetch succeeds (lines 105-106).\<close>

definition fetched :: "js_object \<Rightarrow> app_state" where
  "fetched data =
     showMessage ''Merkle proof fetched. Now you can verify it client-side.'' False
       \<lparr>merkleProofResult = Some data, message = [],
        messageDiv = Some \<lparr>backgroundColor = [], color = [], display = ''none''\<rparr>\<rparr>"

text \<open>
  The verdict of a run: the run throws, or it ends with one of the two messages, and the
  verdict is whether the message of success is the one shown.
\<close>

definition verdict :: "js_abort + app_state \<Rightarrow> js_abort + bool" where
  "verdict r = (case r of Inl e \<Rightarrow> Inl e | Inr st \<Rightarrow> Inr (message st = msg_verified))"

definition verify :: "string \<Rightarrow> string list \<Rightarrow> string \<Rightarrow> js_abort + bool" where
  "verify leaf proof expectedRoot =
     verdict (verifyMerkleProofClientSide (fetched (proof_result leaf expectedRoot 0 proof)))"


section \<open>The specification's verifier\<close>

text \<open>
  Written from the specification's words: lexicographic comparison of two strings, the
  ordered concatenation with the smaller value first, and the fold over the proof path.
\<close>

definition spec_lex_less :: "string \<Rightarrow> string \<Rightarrow> bool" where
  "spec_lex_less a b = ((a, b) \<in> lexord {(x, y). (of_char x :: nat) < of_char y})"

definition spec_ordered_concatenation :: "string \<Rightarrow> string \<Rightarrow> string" where
  "spec_ordered_concatenation current sibling =
     (if spec_lex_less current sibling then current @ sibling else sibling @ current)"

definition spec_step :: "string \<Rightarrow> string \<Rightarrow> string" where
  "spec_step current sibling = sha256 (spec_ordered_concatenation current sibling)"

definition spec_root :: "string \<Rightarrow> string list \<Rightarrow> string" where
  "spec_root leaf proof = foldl spec_step leaf proof"


text \<open>
  The proof object under the property names the specification gives it (section 6):
  \<open>txHash\<close>, \<open>merkleRoot\<close>, \<open>blockIndex\<close>, \<open>proofPath\<close>.
\<close>

definition spec_proof_result :: "string \<Rightarrow> string \<Rightarrow> int \<Rightarrow> string list \<Rightarrow> js_object" where
  "spec_proof_result txHash merkleRoot blockIndex proofPath =
     [''txHash'' \<mapsto> JStr txHash, ''merkleRoot'' \<mapsto> JStr merkleRoot,
      ''blockIndex'' \<mapsto> JNum blockIndex, ''proofPath'' \<mapsto> JArr proofPath]"

text \<open>The concrete scenario of the specification's section 8.\<close>

definition scenario_H1 :: string where
  "scenario_H1 = sha256 (''aa'' @ ''bb'')"

definition scenario_R :: string where
  "scenario_R = (if spec_lex_less scenario_H1 ''cc'' then sha256 (scenario_H1 @ ''cc'')
                 else sha256 (''cc'' @ scenario_H1))"


section \<open>Properties of the model\<close>

lemma utf8_append: "utf8 (a @ b) = utf8 a @ utf8 b"
  by (simp add: utf8_def)

lemma update_twice: "sha256_hex (sha256_update (sha256_update sha256_create a) b) = sha256 (a @ b)"
  by (simp add: sha256_def sha256_update_def sha256_create_def utf8_append)

lemma of_char_nat_eq: "(of_char x :: nat) = of_char y \<longleftrightarrow> x = y"
  by simp

lemma str_less_lexord: "str_less a b = spec_lex_less a b"
proof (induction a b rule: str_less.induct)
  case (1 x xs y ys)
  have "x = y" if "\<not> (of_char x :: nat) < of_char y" "\<not> (of_char y :: nat) < of_char x"
    using that of_char_nat_eq [of x y] by arith
  with 1 show ?case
    by (auto simp: spec_lex_less_def)
next
  case (2 ys)
  then show ?case
    by (cases ys) (simp_all add: spec_lex_less_def)
next
  case (3 v va)
  then show ?case
    by (simp add: spec_lex_less_def)
qed

lemma str_less_Nil_right: "\<not> str_less xs []"
  by (cases xs) simp_all

lemma str_less_irrefl: "\<not> str_less a a"
  by (induction a) simp_all

lemma str_less_asym: "str_less a b \<Longrightarrow> \<not> str_less b a"
  by (induction a b rule: str_less.induct) (auto simp: str_less_Nil_right split: if_splits)

lemma str_less_total: "\<not> str_less a b \<Longrightarrow> \<not> str_less b a \<Longrightarrow> a = b"
proof (induction a b rule: str_less.induct)
  case (1 x xs y ys)
  then show ?case
    using of_char_nat_eq [of x y] by (auto split: if_splits)
qed auto

lemma loop_body_spec: "loop_body (JStr c) s = Inr (JStr (spec_step c s))"
  by (simp add: update_twice spec_step_def spec_ordered_concatenation_def str_less_lexord)

lemma recompute_root_spec: "recompute_root (JStr leaf) proof = Inr (JStr (spec_root leaf proof))"
  unfolding spec_root_def
  by (induction "proof" arbitrary: leaf) (simp_all add: loop_body_spec del: loop_body.simps)

lemma msg_failed_neq: "msg_failed \<noteq> msg_verified"
  by (simp add: msg_failed_def msg_verified_def)

lemma message_showMessage: "message (showMessage msg isError st) = msg"
  by (simp add: showMessage_def)

lemma merkleProofResult_showMessage: "merkleProofResult (showMessage msg isError st) = merkleProofResult st"
  by (simp add: showMessage_def)

lemma verifier_on_strings:
  assumes "merkleProofResult st = Some obj"
    and "obj ''tx_hash'' = Some (JStr leaf)"
    and "obj ''merkle_root'' = Some (JStr expectedRoot)"
    and "obj ''merkle_proof'' = Some (JArr proof)"
  shows "verifyMerkleProofClientSide st =
     Inr (if spec_root leaf proof = expectedRoot
          then showMessage msg_verified False st
          else showMessage msg_failed True st)"
  using assms
  by (simp add: verifyMerkleProofClientSide_def get_prop_def recompute_root_spec)

lemma verify_spec: "verify leaf proof expectedRoot = Inr (spec_root leaf proof = expectedRoot)"
proof -
  let ?obj = "proof_result leaf expectedRoot 0 proof"
  have "verifyMerkleProofClientSide (fetched ?obj) =
     Inr (if spec_root leaf proof = expectedRoot
          then showMessage msg_verified False (fetched ?obj)
          else showMessage msg_failed True (fetched ?obj))"
    by (rule verifier_on_strings [where obj = ?obj])
      (simp_all add: fetched_def proof_result_def merkleProofResult_showMessage)
  then show ?thesis
    by (simp add: verify_def verdict_def message_showMessage msg_failed_neq)
qed


subsection \<open>Evaluating the hash\<close>

lemma replicate_numeral: "replicate (numeral k) x = x # replicate (pred_numeral k) x"
  by (simp add: numeral_eq_Suc)

lemma add32_eval:
  "add32 x y = (if x + y < 4294967296 then x + y
                else if x + y < 8589934592 then x + y - 4294967296
                else (x + y) mod 4294967296)"
proof -
  have "(x + y) mod 4294967296 = x + y - 4294967296"
    if "\<not> x + y < 4294967296" "x + y < 8589934592"
  proof -
    have "(x + y - 4294967296) mod 4294967296 = (x + y) mod 4294967296"
      using that by (simp add: le_mod_geq)
    moreover have "x + y - 4294967296 < 4294967296"
      using that by simp
    ultimately show ?thesis by simp
  qed
  then show ?thesis
    by (simp add: add32_def)
qed

lemma rotr_eval:
  assumes "n \<le> 32"
  shows "rotr n x = drop_bit n x OR (take_bit n x * 2 ^ (32 - n))"
proof -
  have "(2::nat) ^ 32 = 2 ^ n * 2 ^ (32 - n)"
    using assms by (simp flip: power_add)
  then have "(x * 2 ^ (32 - n)) mod 2 ^ 32 = (x mod 2 ^ n) * 2 ^ (32 - n)"
    by (simp only: mult_mod_left)
  then show ?thesis
    by (simp add: rotr_def drop_bit_eq_div take_bit_eq_mod)
qed

lemma shr_eval: "shr n x = drop_bit n x"
  by (simp add: shr_def drop_bit_eq_div)

lemmas sha_eval =
  sha256_def sha256_hex_def sha256_update_def sha256_create_def utf8_def utf8_char_def
  sha256_bytes_def sha256_words_def pad_def blocks.simps compress_def K_def H0_def
  add32_eval shr_eval rotr_eval ssig0_def ssig1_def bsig0_def bsig1_def ch_def maj_def
  hex32_def hexdigit_def replicate_numeral

text \<open>Known answers: the one-block and two-block examples of FIPS 180-4, and the empty message.\<close>

lemma sha256_abc:
  "sha256 ''abc'' = ''ba7816bf8f01cfea414140de5dae2223b00361a396177a9cb410ff61f20015ad''"
  by (simp add: sha_eval)

lemma sha256_two_blocks:
  "sha256 ''abcdbcdecdefdefgefghfghighijhijkijkljklmklmnlmnomnopnopq'' =
     ''248d6a61d20638b8e5c026930c3e6039a33ce45964ff2167f6ecedd419db06c1''"
  by (simp add: sha_eval)

lemma sha256_empty:
  "sha256 [] = ''e3b0c44298fc1c149afbf4c8996fb92427ae41e4649b934ca495991b7852b855''"
  by (simp add: sha_eval)

text \<open>The digests of the scenario and of the transaction \<open>Alice\<close>, \<open>Bob\<close>, 10.\<close>

lemma sha256_aabb:
  "sha256 ''aabb'' = ''486b34250bd4400c0aa90516fce9a9c0633a922eb40d0828cf299bc4e825acf4''"
  by (simp add: sha_eval)

lemma sha256_H1_cc:
  "sha256 ''486b34250bd4400c0aa90516fce9a9c0633a922eb40d0828cf299bc4e825acf4cc'' =
     ''7d145a7385fa9eb1783b98b2a938c801c4bb14387b2ef1b3c0dd9a1e051e020e''"
  by (simp add: sha_eval)

lemma sha256_H1_dd:
  "sha256 ''486b34250bd4400c0aa90516fce9a9c0633a922eb40d0828cf299bc4e825acf4dd'' =
     ''fae00eab3317b4ed13d2101bc30da11a66eb2c027606ca581af451e92a9ecf69''"
  by (simp add: sha_eval)

lemma sha256_aacc:
  "sha256 ''aacc'' = ''8d89dc5d89bd1e7e81d00186a73daa36e448a802dd60b6535a14f5b43e3fbad7''"
  by (simp add: sha_eval)

lemma sha256_aacc_bb:
  "sha256 ''8d89dc5d89bd1e7e81d00186a73daa36e448a802dd60b6535a14f5b43e3fbad7bb'' =
     ''9f9f150a06d6ffe0443fe706b45e121cafd9a9587a6f106d47bbb15ef175efbc''"
  by (simp add: sha_eval)

lemma sha256_AliceBob10:
  "sha256 ''AliceBob10'' = ''9331e000777877ac9b82fb7b8cef3de72fe58570e59244ca6eed0128d8fa9cfa''"
  by (simp add: sha_eval)

lemma sha256_template_10:
  \<open>sha256 ''<span class="math-inline">{tx.sender}</span>{tx.recipient}10'' =
     ''88551e7f46e903a6550db0567d2376076eb678815efc16da87d08f5bcfed77f7''\<close>
  by (simp add: sha_eval)

lemma number_to_string_10: "number_to_string 10 = ''10''"
  by (simp add: number_to_string_def nat_to_string.simps digit_char_def)

lemma spec_step_eval: "spec_step c s = sha256 (if str_less c s then c @ s else s @ c)"
  by (simp add: spec_step_def spec_ordered_concatenation_def str_less_lexord)

lemma scenario_H1_eval:
  "scenario_H1 = ''486b34250bd4400c0aa90516fce9a9c0633a922eb40d0828cf299bc4e825acf4''"
  by (simp add: scenario_H1_def sha256_aabb)

lemma scenario_R_eval:
  "scenario_R = ''7d145a7385fa9eb1783b98b2a938c801c4bb14387b2ef1b3c0dd9a1e051e020e''"
  by (simp add: scenario_R_def scenario_H1_eval sha256_H1_cc flip: str_less_lexord)


section \<open>The claims\<close>

text \<open>
  C1. For every leaf digest, proof path and expected root, the verifier's verdict is
  obtained by folding over the proof path in order: starting from the leaf, each step
  compares the current value with the sibling lexicographically as strings, hashes the
  concatenation with the smaller value first, and makes the digest the current value;
  after the last entry the verdict is exactly whether the current value equals the
  expected root. The loop of the code computes that fold, and the run never throws.
\<close>

theorem C1_verdict_is_ordered_fold:
  "recompute_root (JStr leaf) proof =
     Inr (JStr (foldl (\<lambda>current sibling.
        sha256 (if spec_lex_less current sibling then current @ sibling else sibling @ current))
        leaf proof))
   \<and> verify leaf proof expectedRoot = Inr (spec_root leaf proof = expectedRoot)"
proof -
  have "spec_step = (\<lambda>current sibling.
      sha256 (if spec_lex_less current sibling then current @ sibling else sibling @ current))"
    by (rule ext)+ (simp add: spec_step_def spec_ordered_concatenation_def)
  then show ?thesis
    using recompute_root_spec [of leaf "proof"] verify_spec [of leaf "proof" expectedRoot]
    by (simp add: spec_root_def)
qed

text \<open>
  C3. Round trip: when the root is constructed from a leaf \<open>L\<close> and a path \<open>P\<close> by
  combining \<open>L\<close> with each entry of \<open>P\<close> in turn under the sorted-concatenation hash
  rule, the verifier accepts \<open>L\<close>, \<open>P\<close> and that root.
\<close>

theorem C3_constructed_root_accepted: "verify L P (spec_root L P) = Inr True"
  by (simp add: verify_spec)

text \<open>
  C4. With an empty proof the verifier answers true exactly when the leaf equals the
  expected root; in particular it accepts \<open>L\<close> against \<open>L\<close>.
\<close>

theorem C4_empty_proof: "verify L [] R = Inr (L = R) \<and> verify L [] L = Inr True"
  by (simp add: verify_spec spec_root_def)

text \<open>
  C5. On every leaf string, list of sibling strings and expected root string, well-formed
  digests or not, the run of the verifier does not throw: it ends with the verdict true
  or the verdict false, and the verdict is false exactly when the recomputed value
  differs from the expected root.
\<close>

theorem C5_verify_total:
  "(verify leaf proof expectedRoot = Inr True \<or> verify leaf proof expectedRoot = Inr False)
   \<and> (verify leaf proof expectedRoot = Inr False) = (spec_root leaf proof \<noteq> expectedRoot)"
  by (simp add: verify_spec)

text \<open>
  C7. The concrete scenario: with the leaf \<open>aa\<close>, \<open>H1\<close> the digest of \<open>aabb\<close> and \<open>R\<close> the
  digest of \<open>H1\<close> and \<open>cc\<close> in sorted order, the verifier accepts the proof \<open>[bb, cc]\<close>
  against \<open>R\<close> and rejects both \<open>[bb, dd]\<close> and the reversed proof \<open>[cc, bb]\<close>.
\<close>

theorem C7_concrete_scenario:
  "spec_lex_less ''aa'' ''bb''
   \<and> verify ''aa'' [''bb'', ''cc''] scenario_R = Inr True
   \<and> verify ''aa'' [''bb'', ''dd''] scenario_R = Inr False
   \<and> verify ''aa'' [''cc'', ''bb''] scenario_R = Inr False"
proof -
  have "spec_lex_less ''aa'' ''bb''"
    by (simp flip: str_less_lexord)
  moreover have "spec_root ''aa'' [''bb'', ''cc''] = scenario_R"
    by (simp add: spec_root_def spec_step_eval sha256_aabb sha256_H1_cc scenario_R_eval)
  moreover have "spec_root ''aa'' [''bb'', ''dd''] \<noteq> scenario_R"
    by (simp add: spec_root_def spec_step_eval sha256_aabb sha256_H1_dd scenario_R_eval)
  moreover have "spec_root ''aa'' [''cc'', ''bb''] \<noteq> scenario_R"
    by (simp add: spec_root_def spec_step_eval sha256_aacc sha256_aacc_bb scenario_R_eval)
  ultimately show ?thesis
    by (simp add: verify_spec)
qed

text \<open>
  C10. The combination of one step is commutative: a step from \<open>a\<close> with sibling \<open>b\<close>
  gives the value of a step from \<open>b\<close> with sibling \<open>a\<close>; so the verifier gives the same
  verdict on \<open>a\<close> with proof \<open>[b]\<close> as on \<open>b\<close> with proof \<open>[a]\<close>, for every root.
\<close>

theorem C10_step_commutes:
  "loop_body (JStr a) b = loop_body (JStr b) a \<and> verify a [b] r = verify b [a] r"
proof -
  have step: "loop_body (JStr a) b = loop_body (JStr b) a"
    using str_less_asym [of a b] str_less_total [of a b]
    by (auto simp: update_twice)
  then have "spec_step a b = spec_step b a"
    by (simp add: loop_body_spec del: loop_body.simps)
  then show ?thesis
    using step by (simp add: verify_spec spec_root_def)
qed


text \<open>
  C2 (the code departs from it). The claim: the transaction hash is the digest of
  sender, recipient and the decimal amount, concatenated. At the transaction
  \<open>Alice\<close>, \<open>Bob\<close>, 10 the code returns the digest of the template's literal text
  followed by \<open>10\<close>, which is not the digest of \<open>AliceBob10\<close>.
\<close>

theorem C2_calculateTxHash_Alice_Bob_10:
  \<open>calculateTxHash \<lparr>sender = ''Alice'', recipient = ''Bob'', amount = 10\<rparr> =
     sha256 ''<span class="math-inline">{tx.sender}</span>{tx.recipient}10''
   \<and> calculateTxHash \<lparr>sender = ''Alice'', recipient = ''Bob'', amount = 10\<rparr> =
     ''88551e7f46e903a6550db0567d2376076eb678815efc16da87d08f5bcfed77f7''
   \<and> sha256 (''Alice'' @ ''Bob'' @ number_to_string 10) =
     ''9331e000777877ac9b82fb7b8cef3de72fe58570e59244ca6eed0128d8fa9cfa''\<close>
  by (simp add: calculateTxHash_def number_to_string_10 sha256_template_10 sha256_AliceBob10)

text \<open>
  C6, as the specification states it: the proof object carries the properties \<open>txHash\<close>,
  \<open>merkleRoot\<close>, \<open>blockIndex\<close> and \<open>proofPath\<close>, and the verifier reads leaf, root and
  siblings from them. On such an object, with leaf and root \<open>aa\<close> and an empty path (which
  the verifier accepts under the names the code reads), the run throws at the loop
  header: \<open>merkle_proof\<close> is \<open>undefined\<close>.
\<close>

theorem C6_spec_names_counterexample:
  "verdict (verifyMerkleProofClientSide (fetched (spec_proof_result ''aa'' ''aa'' 0 []))) =
     Inl TypeError_not_iterable
   \<and> verify ''aa'' [] ''aa'' = Inr True"
  by (simp add: verify_spec spec_root_def verdict_def verifyMerkleProofClientSide_def fetched_def
      showMessage_def spec_proof_result_def get_prop_def)

text \<open>
  C6, amended: the proof object carries the properties \<open>tx_hash\<close>, \<open>merkle_root\<close>,
  \<open>block_index\<close> and \<open>merkle_proof\<close>. The verifier reads the leaf digest from \<open>tx_hash\<close>,
  the claimed root from \<open>merkle_root\<close> and the sibling list from \<open>merkle_proof\<close>: whatever
  else the object holds, the message shown is the verdict on these three, and the object
  held in the state is the same after the run.
\<close>

theorem C6_reads_snake_case_fields:
  assumes "obj ''tx_hash'' = Some (JStr leaf)"
    and "obj ''merkle_root'' = Some (JStr expectedRoot)"
    and "obj ''merkle_proof'' = Some (JArr proof)"
  shows "\<exists>st'. verifyMerkleProofClientSide (st\<lparr>merkleProofResult := Some obj\<rparr>) = Inr st'
     \<and> merkleProofResult st' = Some obj
     \<and> message st' = (if spec_root leaf proof = expectedRoot then msg_verified else msg_failed)"
proof -
  let ?st = "st\<lparr>merkleProofResult := Some obj\<rparr>"
  have "merkleProofResult ?st = Some obj"
    by simp
  from verifier_on_strings [OF this assms] show ?thesis
    by (simp add: message_showMessage merkleProofResult_showMessage)
qed

theorem C6_reads_snake_case_fields_witness:
  "proof_result ''aa'' ''aa'' 7 [] ''tx_hash'' = Some (JStr ''aa'')
   \<and> proof_result ''aa'' ''aa'' 7 [] ''merkle_root'' = Some (JStr ''aa'')
   \<and> proof_result ''aa'' ''aa'' 7 [] ''merkle_proof'' = Some (JArr [])
   \<and> (\<exists>st'. verifyMerkleProofClientSide
          ((fetched Map.empty)\<lparr>merkleProofResult := Some (proof_result ''aa'' ''aa'' 7 [])\<rparr>) = Inr st'
        \<and> merkleProofResult st' = Some (proof_result ''aa'' ''aa'' 7 [])
        \<and> message st' = msg_verified)"
proof -
  let ?obj = "proof_result ''aa'' ''aa'' 7 []"
  have h: "?obj ''tx_hash'' = Some (JStr ''aa'')" "?obj ''merkle_root'' = Some (JStr ''aa'')"
    "?obj ''merkle_proof'' = Some (JArr [])"
    by (simp_all add: proof_result_def)
  from C6_reads_snake_case_fields [OF h, of "fetched Map.empty"] h show ?thesis
    by (simp add: spec_root_def)
qed

text \<open>
  C8. Hashing a transaction is a function of the transaction: two transactions that agree
  on sender, recipient and amount have the same digest (so hashing one transaction twice
  gives one digest).
\<close>

theorem C8_calculateTxHash_deterministic:
  assumes "sender t1 = sender t2" and "recipient t1 = recipient t2" and "amount t1 = amount t2"
  shows "calculateTxHash t1 = calculateTxHash t2"
  using assms by (simp add: calculateTxHash_def)

theorem C8_calculateTxHash_deterministic_witness:
  "sender \<lparr>sender = ''Alice'', recipient = ''Bob'', amount = 10\<rparr> =
     sender \<lparr>sender = ''Ali'' @ ''ce'', recipient = ''B'' @ ''ob'', amount = 4 + 6\<rparr>
   \<and> recipient \<lparr>sender = ''Alice'', recipient = ''Bob'', amount = 10\<rparr> =
     recipient \<lparr>sender = ''Ali'' @ ''ce'', recipient = ''B'' @ ''ob'', amount = 4 + 6\<rparr>
   \<and> amount \<lparr>sender = ''Alice'', recipient = ''Bob'', amount = 10\<rparr> =
     amount \<lparr>sender = ''Ali'' @ ''ce'', recipient = ''B'' @ ''ob'', amount = 4 + 6\<rparr>
   \<and> calculateTxHash \<lparr>sender = ''Alice'', recipient = ''Bob'', amount = 10\<rparr> =
     calculateTxHash \<lparr>sender = ''Ali'' @ ''ce'', recipient = ''B'' @ ''ob'', amount = 4 + 6\<rparr>"
proof -
  let ?a = "\<lparr>sender = ''Alice'', recipient = ''Bob'', amount = 10\<rparr>"
  let ?b = "\<lparr>sender = ''Ali'' @ ''ce'', recipient = ''B'' @ ''ob'', amount = 4 + 6\<rparr>"
  have s: "sender ?a = sender ?b" and r: "recipient ?a = recipient ?b" and a: "amount ?a = amount ?b"
    by simp_all
  from C8_calculateTxHash_deterministic [OF s r a] s r a show ?thesis
    by blast
qed

text \<open>
  C9. Two transactions with the same amount have the same digest, whatever their senders
  and recipients: the digest is that of the template's literal text followed by the
  amount.
\<close>

theorem C9_digest_depends_on_amount_only:
  assumes "amount t1 = amount t2"
  shows "calculateTxHash t1 = calculateTxHash t2"
  using assms by (simp add: calculateTxHash_def)

theorem C9_digest_depends_on_amount_only_witness:
  "amount \<lparr>sender = ''Alice'', recipient = ''Bob'', amount = 10\<rparr> =
     amount \<lparr>sender = ''Carol'', recipient = ''Dave'', amount = 10\<rparr>
   \<and> calculateTxHash \<lparr>sender = ''Alice'', recipient = ''Bob'', amount = 10\<rparr> =
     calculateTxHash \<lparr>sender = ''Carol'', recipient = ''Dave'', amount = 10\<rparr>"
proof -
  let ?a = "\<lparr>sender = ''Alice'', recipient = ''Bob'', amount = 10\<rparr>"
  let ?b = "\<lparr>sender = ''Carol'', recipient = ''Dave'', amount = 10\<rparr>"
  have a: "amount ?a = amount ?b"
    by simp
  from C9_digest_depends_on_amount_only [OF a] a show ?thesis
    by blast
qed

end
